theory Spec2Isabelle
  imports Main "HOL-Library.Word"
begin

unbundle bit_operations_syntax

section \<open>Data model of clientpool.go\<close>

text \<open>
  The package-level error values. \<open>ErrExternal\<close> stands for the error values that the
  thrift library hands back (from \<open>NewTSocket\<close>, \<open>Open\<close> and \<open>Close\<close>).
\<close>

datatype error =
    ErrPoolClosed
  | ErrPoolMaxOpenReached
  | ErrClientMissingTransportField
  | ErrClientNilTransportField
  | errNoPooledClient
  | ErrExternal nat

text \<open>
  A \<open>Client\<close> is an \<open>interface{}\<close>; \<open>None\<close> is the nil interface. \<open>closeClient\<close> looks at
  a non-nil client through reflection only, so a client is modelled by what
  \<open>reflect.ValueOf(cli).Elem().FieldByName("Transport")\<close> finds:
  \<^item> \<open>NotStructPtr\<close>: the value is no pointer to a struct, the reflection calls panic;
  \<^item> \<open>StructPtr i f\<close>: a pointer to a struct, with \<open>f\<close> the state of its field:
    \<open>FieldInvalid\<close> (no such field), \<open>FieldNil\<close> (\<open>IsNil\<close> holds), \<open>FieldNotTransport\<close>
    (a value that \<open>IsNil\<close> or the type assertion to \<open>thrift.TTransport\<close> rejects with
    a panic) and \<open>FieldTransport t\<close> (the transport \<open>t\<close>).
\<close>

datatype transport_field = FieldInvalid | FieldNil | FieldNotTransport | FieldTransport nat

datatype client = StructPtr nat transport_field | NotStructPtr nat

text \<open>A \<open>*thrift.TSocket\<close>: its address and the timeout that \<open>SetTimeout\<close> stored last.\<close>

record TSocket =
  sock_id :: nat
  addr :: string
  timeout :: int

text \<open>
  Everything outside the pool is a trace of the calls made so far, oldest first, and an
  environment that answers each call from the trace and the call's arguments.
\<close>

datatype event =
    EvRand
  | EvNewTSocket string
  | EvOpen TSocket
  | EvFactory TSocket
  | EvClose nat

type_synonym world = "event list"

record env =
  rand_Int :: "world \<Rightarrow> nat"
  NewTSocket_err :: "world \<Rightarrow> string \<Rightarrow> error option"
  Open_err :: "world \<Rightarrow> TSocket \<Rightarrow> error option"
  Close_err :: "world \<Rightarrow> nat \<Rightarrow> error option"

text \<open>
  A buffered channel of clients: its queue and its capacity. The pool uses a channel
  only inside \<open>select\<close> statements with a \<open>default\<close> branch, so a send and a receive
  either happen at once or not at all; on a nil channel neither is ever ready.
\<close>

record chan =
  buf :: "client option list"
  cap :: nat

definition make_chan :: "nat \<Rightarrow> chan" where
  "make_chan n = \<lparr>buf = [], cap = n\<rparr>"

definition try_send :: "chan \<Rightarrow> client option \<Rightarrow> chan option" where
  "try_send ch v = (if length (buf ch) < cap ch then Some (ch\<lparr>buf := buf ch @ [v]\<rparr>) else None)"

definition try_recv :: "chan \<Rightarrow> (client option \<times> chan) option" where
  "try_recv ch = (case buf ch of [] \<Rightarrow> None | v # vs \<Rightarrow> Some (v, ch\<lparr>buf := vs\<rparr>))"

definition select_recv :: "chan option \<Rightarrow> (client option \<times> chan) option" where
  "select_recv c = (case c of None \<Rightarrow> None | Some ch \<Rightarrow> try_recv ch)"

record ChannelClientPool =
  clients :: "chan option"
  opened :: "32 word"
  maxIdle :: "32 word"
  maxOpen :: "32 word"
  servers :: "string list"
  connectTimeout :: int
  readTimeout :: int
  clientFactory :: "world \<Rightarrow> TSocket \<Rightarrow> client option"

record pooledClient =
  Client :: "client option"
  unusable :: bool

text \<open>A call either panics or returns.\<close>

datatype 'a res = Panic | Ret 'a

section \<open>The operations of clientpool.go\<close>

definition RawClient :: "pooledClient \<Rightarrow> client option" where
  "RawClient cli = Client cli"

definition MarkUnusable :: "pooledClient \<Rightarrow> pooledClient" where
  "MarkUnusable cli = cli\<lparr>unusable := True\<rparr>"

definition NewChannelClientPool ::
  "32 word \<Rightarrow> 32 word \<Rightarrow> string list \<Rightarrow> int \<Rightarrow> int \<Rightarrow> (world \<Rightarrow> TSocket \<Rightarrow> client option)
   \<Rightarrow> ChannelClientPool" where
  "NewChannelClientPool mi mo srv ct rt f =
     \<lparr>clients = Some (make_chan (unat mi)), opened = 0, maxIdle = mi, maxOpen = mo,
      servers = srv, connectTimeout = ct, readTimeout = rt, clientFactory = f\<rparr>"


definition getFromPool ::
  "ChannelClientPool \<Rightarrow> client option \<times> error option \<times> ChannelClientPool" where
  "getFromPool pool =
     (case clients pool of
        None \<Rightarrow> (None, Some ErrPoolClosed, pool)
      | Some ch \<Rightarrow>
          (case try_recv ch of
             Some (rawCli, ch') \<Rightarrow> (rawCli, None, pool\<lparr>clients := Some ch'\<rparr>)
           | None \<Rightarrow> (None, Some errNoPooledClient, pool)))"

text \<open>
  \<open>closeClient\<close>: \<open>atomic.AddUint32(&pool.opened, ^uint32(0))\<close> adds the all-ones word,
  with wrap-around.
\<close>

definition closeClient ::
  "env \<Rightarrow> ChannelClientPool \<Rightarrow> client option \<Rightarrow> world
   \<Rightarrow> (error option \<times> ChannelClientPool \<times> world) res" where
  "closeClient e pool cli w =
     (case cli of
        None \<Rightarrow> Ret (None, pool, w)
      | Some c \<Rightarrow>
          (let pool' = (if maxOpen pool \<noteq> 0 then pool\<lparr>opened := opened pool + NOT 0\<rparr> else pool)
           in case c of
                NotStructPtr i \<Rightarrow> Panic
              | StructPtr i FieldInvalid \<Rightarrow> Ret (Some ErrClientMissingTransportField, pool', w)
              | StructPtr i FieldNil \<Rightarrow> Ret (Some ErrClientNilTransportField, pool', w)
              | StructPtr i FieldNotTransport \<Rightarrow> Panic
              | StructPtr i (FieldTransport t) \<Rightarrow> Ret (Close_err e w t, pool', w @ [EvClose t])))"

text \<open>
  \<open>openClient\<close>, in its two parts: the ceiling check (one atomic load) and everything
  after it. With an empty server list, \<open>rand.Int() % len(pool.servers)\<close> divides by zero
  and panics.
\<close>

definition openClient_check :: "ChannelClientPool \<Rightarrow> bool" where
  "openClient_check pool \<longleftrightarrow> maxOpen pool \<noteq> 0 \<and> opened pool \<ge> maxOpen pool"

definition openClient_dial ::
  "env \<Rightarrow> ChannelClientPool \<Rightarrow> world
   \<Rightarrow> (client option \<times> error option \<times> ChannelClientPool \<times> world) res" where
  "openClient_dial e pool w =
     (if servers pool = [] then Panic
      else
        let server = servers pool ! (rand_Int e w mod length (servers pool));
            w1 = w @ [EvRand];
            w2 = w1 @ [EvNewTSocket server]
        in case NewTSocket_err e w1 server of
             Some err \<Rightarrow> Ret (None, Some err, pool, w2)
           | None \<Rightarrow>
               (let socket = \<lparr>sock_id = length w1, addr = server, timeout = 0\<rparr>;
                    socket1 = socket\<lparr>timeout := connectTimeout pool\<rparr>;
                    w3 = w2 @ [EvOpen socket1]
                in case Open_err e w2 socket1 of
                     Some err \<Rightarrow> Ret (None, Some err, pool, w3)
                   | None \<Rightarrow>
                       (let socket2 = socket1\<lparr>timeout := readTimeout pool\<rparr>;
                            pool' = (if maxOpen pool \<noteq> 0
                                     then pool\<lparr>opened := opened pool + 1\<rparr> else pool)
                        in Ret (clientFactory pool w3 socket2, None, pool',
                                w3 @ [EvFactory socket2]))))"

definition openClient ::
  "env \<Rightarrow> ChannelClientPool \<Rightarrow> world
   \<Rightarrow> (client option \<times> error option \<times> ChannelClientPool \<times> world) res" where
  "openClient e pool w =
     (if openClient_check pool then Ret (None, Some ErrPoolMaxOpenReached, pool, w)
      else openClient_dial e pool w)"

definition Get ::
  "env \<Rightarrow> ChannelClientPool \<Rightarrow> world
   \<Rightarrow> (pooledClient option \<times> error option \<times> ChannelClientPool \<times> world) res" where
  "Get e pool w =
     (case getFromPool pool of
        (rawCli, err, pool1) \<Rightarrow>
          if err = Some ErrPoolClosed then Ret (None, err, pool1, w)
          else if rawCli = None then
            (case openClient e pool1 w of
               Panic \<Rightarrow> Panic
             | Ret (rawCli', err', pool2, w') \<Rightarrow>
                 if err' \<noteq> None then Ret (None, err', pool2, w')
                 else Ret (Some \<lparr>Client = rawCli', unusable = False\<rparr>, err', pool2, w'))
          else Ret (Some \<lparr>Client = rawCli, unusable = False\<rparr>, err, pool1, w))"

text \<open>
  \<open>closePooledClient\<close> writes through the handle pointer, so the model returns the
  handle as the call leaves it.
\<close>

definition closePooledClient ::
  "env \<Rightarrow> ChannelClientPool \<Rightarrow> pooledClient \<Rightarrow> world
   \<Rightarrow> (error option \<times> pooledClient \<times> ChannelClientPool \<times> world) res" where
  "closePooledClient e pool cli w =
     (if unusable cli then
        (case closeClient e pool (Client cli) w of
           Panic \<Rightarrow> Panic
         | Ret (err, pool', w') \<Rightarrow> Ret (err, cli, pool', w'))
      else
        (case (case clients pool of
                 None \<Rightarrow> (cli, pool)
               | Some ch \<Rightarrow>
                   (case try_send ch (Client cli) of
                      Some ch' \<Rightarrow> (cli\<lparr>Client := None\<rparr>, pool\<lparr>clients := Some ch'\<rparr>)
                    | None \<Rightarrow> (cli, pool))) of
           (cli1, pool1) \<Rightarrow>
             (case closeClient e pool1 (Client cli1) w of
                Panic \<Rightarrow> Panic
              | Ret (err, pool', w') \<Rightarrow> Ret (err, cli1, pool', w'))))"

text \<open>
  The drain loop of \<open>Close\<close> is a \<open>for\<close> without a condition; \<open>None\<close> is the loop that
  never returns.
\<close>

partial_function (option) drain ::
  "env \<Rightarrow> chan option \<Rightarrow> error option \<Rightarrow> ChannelClientPool \<Rightarrow> world
   \<Rightarrow> (error option \<times> ChannelClientPool \<times> world) res option" where
  "drain e cs err pool w =
     (case select_recv cs of
        Some (rawCli, ch') \<Rightarrow>
          (case closeClient e pool rawCli w of
             Panic \<Rightarrow> Some Panic
           | Ret (curErr, pool', w') \<Rightarrow>
               drain e (Some ch') (if err = None then curErr else err) pool' w')
      | None \<Rightarrow> Some (Ret (err, pool, w)))"

definition Close ::
  "env \<Rightarrow> ChannelClientPool \<Rightarrow> world
   \<Rightarrow> (error option \<times> ChannelClientPool \<times> world) res option" where
  "Close e pool w = drain e (clients pool) None (pool\<lparr>clients := None\<rparr>) w"

section \<open>The operations of the second copy of the pool (src/unnamed/part_001)\<close>

text \<open>
  The repository holds a second copy of the same pool, on the same struct (with two more
  fields that no function reads). It differs in these places: \<open>Get\<close> reads the channel
  through \<open>getClients\<close> and checks the ceiling in \<open>maxOpenReached\<close>, under the mutex,
  before it calls \<open>openClient\<close>; \<open>openClient\<close> and \<open>closeClient\<close> count \<open>opened\<close>
  whatever \<open>maxOpen\<close> is, and \<open>closeClient\<close> only once it has found the transport;
  \<open>closePooledClient\<close> returns at once after a successful send and never writes to the
  handle; and the drain loop of \<open>Close\<close> receives without a \<open>default\<close> branch. Nothing
  in either copy closes a channel, so a receive never reports \<open>ok = false\<close>.
\<close>

definition getClients :: "ChannelClientPool \<Rightarrow> chan option" where
  "getClients pool = clients pool"

definition maxOpenReached :: "ChannelClientPool \<Rightarrow> bool" where
  "maxOpenReached pool = (if maxOpen pool = 0 then False else opened pool \<ge> maxOpen pool)"

definition openClient_001 ::
  "env \<Rightarrow> ChannelClientPool \<Rightarrow> world
   \<Rightarrow> (client option \<times> error option \<times> ChannelClientPool \<times> world) res" where
  "openClient_001 e pool w =
     (if servers pool = [] then Panic
      else
        let server = servers pool ! (rand_Int e w mod length (servers pool));
            w1 = w @ [EvRand];
            w2 = w1 @ [EvNewTSocket server]
        in case NewTSocket_err e w1 server of
             Some err \<Rightarrow> Ret (None, Some err, pool, w2)
           | None \<Rightarrow>
               (let socket = \<lparr>sock_id = length w1, addr = server, timeout = 0\<rparr>;
                    socket1 = socket\<lparr>timeout := connectTimeout pool\<rparr>;
                    w3 = w2 @ [EvOpen socket1]
                in case Open_err e w2 socket1 of
                     Some err \<Rightarrow> Ret (None, Some err, pool, w3)
                   | None \<Rightarrow>
                       (let socket2 = socket1\<lparr>timeout := readTimeout pool\<rparr>;
                            pool' = pool\<lparr>opened := opened pool + 1\<rparr>
                        in Ret (clientFactory pool w3 socket2, None, pool',
                                w3 @ [EvFactory socket2]))))"

definition closeClient_001 ::
  "env \<Rightarrow> ChannelClientPool \<Rightarrow> client option \<Rightarrow> world
   \<Rightarrow> (error option \<times> ChannelClientPool \<times> world) res" where
  "closeClient_001 e pool cli w =
     (case cli of
        None \<Rightarrow> Ret (None, pool, w)
      | Some (NotStructPtr i) \<Rightarrow> Panic
      | Some (StructPtr i FieldInvalid) \<Rightarrow> Ret (Some ErrClientMissingTransportField, pool, w)
      | Some (StructPtr i FieldNil) \<Rightarrow> Ret (Some ErrClientNilTransportField, pool, w)
      | Some (StructPtr i FieldNotTransport) \<Rightarrow> Panic
      | Some (StructPtr i (FieldTransport t)) \<Rightarrow>
          Ret (Close_err e w t, pool\<lparr>opened := opened pool - 1\<rparr>, w @ [EvClose t]))"

definition Get_001 ::
  "env \<Rightarrow> ChannelClientPool \<Rightarrow> world
   \<Rightarrow> (pooledClient option \<times> error option \<times> ChannelClientPool \<times> world) res" where
  "Get_001 e pool w =
     (case getClients pool of
        None \<Rightarrow> Ret (None, Some ErrPoolClosed, pool, w)
      | Some ch \<Rightarrow>
          (case (case try_recv ch of
                   Some (c, ch') \<Rightarrow> (c, pool\<lparr>clients := Some ch'\<rparr>)
                 | None \<Rightarrow> (None, pool)) of
             (rawCli, pool1) \<Rightarrow>
               if rawCli = None then
                 (if maxOpenReached pool1 then Ret (None, Some ErrPoolMaxOpenReached, pool1, w)
                  else
                    (case openClient_001 e pool1 w of
                       Panic \<Rightarrow> Panic
                     | Ret (rawCli', err, pool2, w') \<Rightarrow>
                         if err \<noteq> None then Ret (None, err, pool2, w')
                         else Ret (Some \<lparr>Client = rawCli', unusable = False\<rparr>, err, pool2, w')))
               else Ret (Some \<lparr>Client = rawCli, unusable = False\<rparr>, None, pool1, w)))"

definition closePooledClient_001 ::
  "env \<Rightarrow> ChannelClientPool \<Rightarrow> pooledClient \<Rightarrow> world
   \<Rightarrow> (error option \<times> pooledClient \<times> ChannelClientPool \<times> world) res" where
  "closePooledClient_001 e pool cli w =
     (case (if \<not> unusable cli
            then (case clients pool of None \<Rightarrow> None | Some ch \<Rightarrow> try_send ch (Client cli))
            else None) of
        Some ch' \<Rightarrow> Ret (None, cli, pool\<lparr>clients := Some ch'\<rparr>, w)
      | None \<Rightarrow>
          (case closeClient_001 e pool (Client cli) w of
             Panic \<Rightarrow> Panic
           | Ret (err, pool', w') \<Rightarrow> Ret (err, cli, pool', w')))"

text \<open>
  The loop of this \<open>Close\<close> is \<open>rawCli, ok := <-clients\<close>: on an empty or nil channel the
  receive waits. No other call is running in this model, so nothing arrives and the
  loop is where it was.
\<close>

partial_function (option) drain_001 ::
  "env \<Rightarrow> chan option \<Rightarrow> error option \<Rightarrow> ChannelClientPool \<Rightarrow> world
   \<Rightarrow> (error option \<times> ChannelClientPool \<times> world) res option" where
  "drain_001 e cs err pool w =
     (case select_recv cs of
        Some (rawCli, ch') \<Rightarrow>
          (case closeClient_001 e pool rawCli w of
             Panic \<Rightarrow> Some Panic
           | Ret (curErr, pool', w') \<Rightarrow>
               drain_001 e (Some ch') (if err = None then curErr else err) pool' w')
      | None \<Rightarrow> drain_001 e cs err pool w)"

definition Close_001 ::
  "env \<Rightarrow> ChannelClientPool \<Rightarrow> world
   \<Rightarrow> (error option \<times> ChannelClientPool \<times> world) res option" where
  "Close_001 e pool w = drain_001 e (clients pool) None (pool\<lparr>clients := None\<rparr>) w"

section \<open>Notions used to state the properties\<close>

text \<open>The idle buffer of a pool, oldest first; a closed pool has none.\<close>

definition idle :: "ChannelClientPool \<Rightarrow> client option list" where
  "idle pool = (case clients pool of None \<Rightarrow> [] | Some ch \<Rightarrow> buf ch)"

text \<open>A non-blocking send would succeed: the pool is open and its buffer is not full.\<close>

definition has_room :: "ChannelClientPool \<Rightarrow> bool" where
  "has_room pool = (case clients pool of None \<Rightarrow> False | Some ch \<Rightarrow> length (buf ch) < cap ch)"

definition push :: "ChannelClientPool \<Rightarrow> client option \<Rightarrow> ChannelClientPool" where
  "push pool c = pool\<lparr>clients := map_option (\<lambda>ch. ch\<lparr>buf := buf ch @ [c]\<rparr>) (clients pool)\<rparr>"

text \<open>
  Tearing down each client of a list in turn, with \<open>closeClient\<close>, and keeping every
  result: what a best-effort shutdown has to do.
\<close>

fun close_each ::
  "env \<Rightarrow> client option list \<Rightarrow> ChannelClientPool \<Rightarrow> world
   \<Rightarrow> (error option list \<times> ChannelClientPool \<times> world) res" where
  "close_each e [] pool w = Ret ([], pool, w)"
| "close_each e (c # cs) pool w =
     (case closeClient e pool c w of
        Panic \<Rightarrow> Panic
      | Ret (err, pool', w') \<Rightarrow>
          (case close_each e cs pool' w' of
             Panic \<Rightarrow> Panic
           | Ret (errs, pool'', w'') \<Rightarrow> Ret (err # errs, pool'', w'')))"

definition first_error :: "error option list \<Rightarrow> error option" where
  "first_error errs = (case filter (\<lambda>x. x \<noteq> None) errs of [] \<Rightarrow> None | x # xs \<Rightarrow> x)"

fun transport_of :: "client option \<Rightarrow> nat option" where
  "transport_of (Some (StructPtr i (FieldTransport t))) = Some t"
| "transport_of c = None"

definition transports :: "client option list \<Rightarrow> nat list" where
  "transports cs = List.map_filter transport_of cs"

text \<open>
  A caller's view: the pool, the world and the handles acquired so far. A caller may
  acquire, mark any handle, close any handle (again, too) and shut the pool down. A
  step is \<open>None\<close> when the call panics or does not return.
\<close>

record sys =
  sys_pool :: ChannelClientPool
  sys_world :: world
  sys_handles :: "pooledClient list"





text \<open>
  Two goroutines inside \<open>openClient\<close>. The load of the ceiling check and the later
  \<open>atomic.AddUint32\<close> are separate atomic operations with no lock around them, so a
  goroutine is either before its check, between its check and its dial, or done.
  \<open>gstep e i\<close> lets goroutine \<open>i\<close> take its next step.
\<close>

datatype goroutine =
    AtCheck
  | AtDial
  | Returned "client option" "error option"
  | Panicked

record conc =
  c_pool :: ChannelClientPool
  c_world :: world
  c_goroutines :: "goroutine list"

definition gstep :: "env \<Rightarrow> nat \<Rightarrow> conc \<Rightarrow> conc" where
  "gstep e i s =
     (if i < length (c_goroutines s) then
        (case c_goroutines s ! i of
           AtCheck \<Rightarrow>
             s\<lparr>c_goroutines := (c_goroutines s)
                  [i := if openClient_check (c_pool s)
                        then Returned None (Some ErrPoolMaxOpenReached) else AtDial]\<rparr>
         | AtDial \<Rightarrow>
             (case openClient_dial e (c_pool s) (c_world s) of
                Panic \<Rightarrow> s\<lparr>c_goroutines := (c_goroutines s)[i := Panicked]\<rparr>
              | Ret (cli, err, pool', w') \<Rightarrow>
                  \<lparr>c_pool = pool', c_world = w',
                   c_goroutines = (c_goroutines s)[i := Returned cli err]\<rparr>)
         | Returned cli err \<Rightarrow> s
         | Panicked \<Rightarrow> s)
      else s)"

definition schedule :: "env \<Rightarrow> nat list \<Rightarrow> conc \<Rightarrow> conc" where
  "schedule e is s = foldl (\<lambda>s i. gstep e i s) s is"

text \<open>Environments and a factory for the concrete runs below.\<close>

definition env_ok :: env where
  "env_ok = \<lparr>rand_Int = (\<lambda>w. length w), NewTSocket_err = (\<lambda>w a. None),
             Open_err = (\<lambda>w s. None), Close_err = (\<lambda>w t. None)\<rparr>"

definition env_close_fails :: env where
  "env_close_fails = \<lparr>rand_Int = (\<lambda>w. length w), NewTSocket_err = (\<lambda>w a. None),
             Open_err = (\<lambda>w s. None), Close_err = (\<lambda>w t. Some (ErrExternal t))\<rparr>"


definition factory_ok :: "world \<Rightarrow> TSocket \<Rightarrow> client option" where
  "factory_ok w s = Some (StructPtr (sock_id s) (FieldTransport (sock_id s)))"

text \<open>
  A pool with room for one idle client and a ceiling of one, its first client, and the
  trace of a first successful \<open>Get\<close>.
\<close>

definition ex_pool :: ChannelClientPool where
  "ex_pool = NewChannelClientPool 1 1 [''a''] 5 7 factory_ok"

definition ex_client :: client where
  "ex_client = StructPtr 1 (FieldTransport 1)"

definition ex_trace :: world where
  "ex_trace = [EvRand, EvNewTSocket ''a'',
             EvOpen \<lparr>sock_id = 1, addr = ''a'', timeout = 5\<rparr>,
             EvFactory \<lparr>sock_id = 1, addr = ''a'', timeout = 7\<rparr>]"

definition ex_handle :: pooledClient where
  "ex_handle = \<lparr>Client = Some ex_client, unusable = False\<rparr>"

text \<open>The same pool without a ceiling, and a client whose struct has no \<open>Transport\<close> field.\<close>

definition ex_pool_unbounded :: ChannelClientPool where
  "ex_pool_unbounded = NewChannelClientPool 1 0 [''a''] 5 7 factory_ok"

definition ex_client_bare :: client where
  "ex_client_bare = StructPtr 2 FieldInvalid"

text \<open>A client on which \<open>closeClient\<close> panics.\<close>

fun malformed :: "client option \<Rightarrow> bool" where
  "malformed (Some (NotStructPtr i)) = True"
| "malformed (Some (StructPtr i FieldNotTransport)) = True"
| "malformed c = False"

text \<open>An open pool with two idle clients.\<close>

definition ex_pool_two :: ChannelClientPool where
  "ex_pool_two =
     (NewChannelClientPool 2 0 [''a''] 5 7 factory_ok)
       \<lparr>clients := Some \<lparr>buf = [Some (StructPtr 1 (FieldTransport 1)),
                              Some (StructPtr 2 (FieldTransport 2))], cap = 2\<rparr>\<rparr>"

text \<open>The channel of an open pool has capacity \<open>k\<close> and holds at most \<open>k\<close> clients.\<close>

definition chan_ok :: "nat \<Rightarrow> ChannelClientPool \<Rightarrow> bool" where
  "chan_ok k pool =
     (case clients pool of None \<Rightarrow> True | Some ch \<Rightarrow> cap ch = k \<and> length (buf ch) \<le> k)"

text \<open>
  The caller's view after two acquires on the pool without a ceiling and the release of
  the first handle: one idle client, one handle still out.
\<close>

definition ex_handle2 :: pooledClient where
  "ex_handle2 = \<lparr>Client = Some (StructPtr 5 (FieldTransport 5)), unusable = False\<rparr>"

definition ex_sys :: sys where
  "ex_sys =
     \<lparr>sys_pool = ex_pool_unbounded\<lparr>clients := Some \<lparr>buf = [Some ex_client], cap = 1\<rparr>\<rparr>,
      sys_world = ex_trace @
        [EvRand, EvNewTSocket ''a'',
         EvOpen \<lparr>sock_id = 5, addr = ''a'', timeout = 5\<rparr>,
         EvFactory \<lparr>sock_id = 5, addr = ''a'', timeout = 7\<rparr>],
      sys_handles = [ex_handle\<lparr>Client := None\<rparr>, ex_handle2]\<rparr>"

text \<open>
  A factory whose clients have no \<open>Transport\<close> field, a pool that uses it, and the handle
  a first \<open>Get\<close> on that pool returns.
\<close>

definition factory_bare :: "world \<Rightarrow> TSocket \<Rightarrow> client option" where
  "factory_bare w s = Some ex_client_bare"

definition ex_pool_bare :: ChannelClientPool where
  "ex_pool_bare = NewChannelClientPool 1 0 [''a''] 5 7 factory_bare"

definition ex_handle_bare :: pooledClient where
  "ex_handle_bare = \<lparr>Client = Some ex_client_bare, unusable = False\<rparr>"



section \<open>The drain loop of Close\<close>

lemma drain_nil: "drain e None err pool w = Some (Ret (err, pool, w))"
  by (subst drain.simps) (simp add: select_recv_def)

lemma drain_empty: "buf ch = [] \<Longrightarrow> drain e (Some ch) err pool w = Some (Ret (err, pool, w))"
  by (subst drain.simps) (simp add: select_recv_def try_recv_def)

lemma drain_step:
  "buf ch = c # cs \<Longrightarrow>
   drain e (Some ch) err pool w =
     (case closeClient e pool c w of
        Panic \<Rightarrow> Some Panic
      | Ret (curErr, pool', w') \<Rightarrow>
          drain e (Some (ch\<lparr>buf := cs\<rparr>)) (if err = None then curErr else err) pool' w')"
  by (subst drain.simps) (simp add: select_recv_def try_recv_def)

lemma first_error_Cons:
  "first_error (x # xs) = (if x = None then first_error xs else x)"
  by (simp add: first_error_def)

lemma first_error_None: "first_error errs = None \<longleftrightarrow> list_all (\<lambda>x. x = None) errs"
  by (induction errs) (auto simp: first_error_Cons first_error_def)

lemma drain_close_each:
  "buf ch = cs \<Longrightarrow>
   drain e (Some ch) err pool w =
     Some (case close_each e cs pool w of
             Panic \<Rightarrow> Panic
           | Ret (errs, pool', w') \<Rightarrow>
               Ret (if err = None then first_error errs else err, pool', w'))"
proof (induction cs arbitrary: ch err pool w)
  case Nil
  then show ?case by (simp add: drain_empty first_error_def)
next
  case (Cons c cs)
  show ?case
  proof (cases "closeClient e pool c w")
    case Panic
    then show ?thesis using Cons.prems by (simp add: drain_step)
  next
    case (Ret r)
    obtain curErr pool' w' where r: "r = (curErr, pool', w')" by (cases r) auto
    have b: "buf (ch\<lparr>buf := cs\<rparr>) = cs" by simp
    show ?thesis
      using Cons.prems Ret r Cons.IH [OF b, of "if err = None then curErr else err" pool' w']
      by (auto simp: drain_step first_error_Cons split: res.splits)
  qed
qed

lemma Close_close_each:
  "Close e pool w =
     Some (case close_each e (idle pool) (pool\<lparr>clients := None\<rparr>) w of
             Panic \<Rightarrow> Panic
           | Ret (errs, pool', w') \<Rightarrow> Ret (first_error errs, pool', w'))"
proof (cases "clients pool")
  case None
  then show ?thesis by (simp add: Close_def drain_nil idle_def first_error_def)
next
  case (Some ch)
  then show ?thesis
    using drain_close_each [of ch "buf ch" e None "pool\<lparr>clients := None\<rparr>" w]
    by (simp add: Close_def idle_def cong: res.case_cong)
qed

section \<open>Teardown leaves the idle buffer alone\<close>

lemma closeClient_clients:
  "closeClient e pool c w = Ret (err, pool', w') \<Longrightarrow> clients pool' = clients pool"
  by (auto simp: closeClient_def Let_def
      split: option.splits client.splits transport_field.splits if_splits)

lemma closeClient_world:
  "closeClient e pool c w = Ret (err, pool', w') \<Longrightarrow> w' = w @ map EvClose (transports [c])"
  by (auto simp: closeClient_def Let_def transports_def
      split: option.splits client.splits transport_field.splits if_splits)

lemma transports_Cons: "transports (c # cs) = transports [c] @ transports cs"
  by (simp add: transports_def split: option.splits)

lemma close_each_facts:
  "close_each e cs pool w = Ret (errs, pool', w') \<Longrightarrow>
   length errs = length cs \<and> clients pool' = clients pool \<and> w' = w @ map EvClose (transports cs)"
proof (induction cs arbitrary: pool w errs)
  case Nil
  then show ?case by (simp add: transports_def)
next
  case (Cons c cs)
  from Cons.prems obtain err p1 w1 errs1 where
    c: "closeClient e pool c w = Ret (err, p1, w1)" and
    r: "close_each e cs p1 w1 = Ret (errs1, pool', w')" and
    es: "errs = err # errs1"
    by (auto split: res.splits)
  from Cons.IH [OF r] closeClient_clients [OF c] closeClient_world [OF c] es
  show ?case by (simp add: transports_Cons [of c cs])
qed

lemma Close_closed:
  "Close e pool0 w0 = Some (Ret (cerr, pool, w1)) \<Longrightarrow> clients pool = None"
  using close_each_facts [of e "idle pool0" "pool0\<lparr>clients := None\<rparr>" w0]
  by (auto simp: Close_close_each split: res.splits)

text \<open>
  C4. \<open>Get\<close> on a pool whose channel is nil, and so on any pool that \<open>Close\<close> has
  returned, fails with \<open>ErrPoolClosed\<close>. \<open>Get\<close> on an open pool with an empty idle buffer,
  a ceiling \<open>maxOpen \<noteq> 0\<close> and \<open>opened \<ge> maxOpen\<close> fails with \<open>ErrPoolMaxOpenReached\<close>. In
  both cases the pool and the trace are as before: no socket is made and none is dialled.
\<close>

theorem Get_fails_closed_or_ceiling:
  "(clients pool = None \<longrightarrow> Get e pool w = Ret (None, Some ErrPoolClosed, pool, w)) \<and>
   (Close e pool0 w0 = Some (Ret (cerr, pool, w1)) \<longrightarrow>
      Get e pool w = Ret (None, Some ErrPoolClosed, pool, w)) \<and>
   (clients pool = Some ch \<and> buf ch = [] \<and> maxOpen pool \<noteq> 0 \<and> maxOpen pool \<le> opened pool \<longrightarrow>
      Get e pool w = Ret (None, Some ErrPoolMaxOpenReached, pool, w))"
proof -
  have a: "clients pool = None \<Longrightarrow> Get e pool w = Ret (None, Some ErrPoolClosed, pool, w)"
    by (simp add: Get_def getFromPool_def)
  have b: "clients pool = Some ch \<Longrightarrow> buf ch = [] \<Longrightarrow> maxOpen pool \<noteq> 0 \<Longrightarrow>
      maxOpen pool \<le> opened pool \<Longrightarrow>
      Get e pool w = Ret (None, Some ErrPoolMaxOpenReached, pool, w)"
    by (simp add: Get_def getFromPool_def try_recv_def openClient_def openClient_check_def)
  show ?thesis using a b Close_closed [of e pool0 w0 cerr pool w1] by auto
qed

theorem Get_fails_closed_or_ceiling_witness:
  "Close env_ok (NewChannelClientPool 1 1 [''a''] 5 7 factory_ok) [] =
     Some (Ret (None, (NewChannelClientPool 1 1 [''a''] 5 7 factory_ok)\<lparr>clients := None\<rparr>, [])) \<and>
   Get env_ok ((NewChannelClientPool 1 1 [''a''] 5 7 factory_ok)\<lparr>clients := None\<rparr>) [EvRand] =
     Ret (None, Some ErrPoolClosed,
          (NewChannelClientPool 1 1 [''a''] 5 7 factory_ok)\<lparr>clients := None\<rparr>, [EvRand]) \<and>
   clients ((NewChannelClientPool 1 1 [''a''] 5 7 factory_ok)\<lparr>opened := 1\<rparr>) = Some (make_chan 1) \<and>
   buf (make_chan 1) = [] \<and>
   Get env_ok ((NewChannelClientPool 1 1 [''a''] 5 7 factory_ok)\<lparr>opened := 1\<rparr>) [] =
     Ret (None, Some ErrPoolMaxOpenReached,
          (NewChannelClientPool 1 1 [''a''] 5 7 factory_ok)\<lparr>opened := 1\<rparr>, [])"
proof -
  let ?P = "NewChannelClientPool 1 1 [''a''] 5 7 factory_ok"
  have c: "Close env_ok ?P [] = Some (Ret (None, ?P\<lparr>clients := None\<rparr>, []))"
    by (simp add: Close_close_each idle_def NewChannelClientPool_def make_chan_def first_error_def)
  have h: "clients (?P\<lparr>opened := 1\<rparr>) = Some (make_chan 1) \<and> buf (make_chan 1) = [] \<and>
      maxOpen (?P\<lparr>opened := 1\<rparr>) \<noteq> 0 \<and> maxOpen (?P\<lparr>opened := 1\<rparr>) \<le> opened (?P\<lparr>opened := 1\<rparr>)"
    by (simp add: NewChannelClientPool_def make_chan_def)
  show ?thesis
    using c h
      Get_fails_closed_or_ceiling [of "?P\<lparr>clients := None\<rparr>" env_ok "[EvRand]" ?P "[]" None "[]"]
      Get_fails_closed_or_ceiling [of "?P\<lparr>opened := 1\<rparr>" env_ok "[]" _ _ _ _ "make_chan 1"]
    by simp
qed

text \<open>
  C10. \<open>Get\<close> returns a handle with a nil error, or no handle with an error, and
  nothing else; it panics only on an empty server list. The same holds for the \<open>Get\<close>
  of the second copy.
\<close>

theorem Get_result_exclusive:
  "((\<exists>h p' w'. Get e pool w = Ret (Some h, None, p', w')) \<or>
    (\<exists>x p' w'. Get e pool w = Ret (None, Some x, p', w')) \<or>
    (Get e pool w = Panic \<and> servers pool = [])) \<and>
   ((\<exists>h p' w'. Get_001 e pool w = Ret (Some h, None, p', w')) \<or>
    (\<exists>x p' w'. Get_001 e pool w = Ret (None, Some x, p', w')) \<or>
    (Get_001 e pool w = Panic \<and> servers pool = []))"
proof
  show "(\<exists>h p' w'. Get e pool w = Ret (Some h, None, p', w')) \<or>
    (\<exists>x p' w'. Get e pool w = Ret (None, Some x, p', w')) \<or>
    (Get e pool w = Panic \<and> servers pool = [])"
    by (auto simp: Get_def getFromPool_def openClient_def openClient_dial_def Let_def try_recv_def
        split: option.splits list.splits res.splits prod.splits if_splits)
  show "(\<exists>h p' w'. Get_001 e pool w = Ret (Some h, None, p', w')) \<or>
    (\<exists>x p' w'. Get_001 e pool w = Ret (None, Some x, p', w')) \<or>
    (Get_001 e pool w = Panic \<and> servers pool = [])"
    by (auto simp: Get_001_def getClients_def openClient_001_def Let_def try_recv_def
        split: option.splits list.splits res.splits prod.splits if_splits)
qed

section \<open>Releasing a handle\<close>

lemma closeClient_opened:
  "closeClient e pool (Some c) w = Ret (err, pool', w') \<Longrightarrow>
   opened pool' = (if maxOpen pool = 0 then opened pool else opened pool - 1)"
  by (auto simp: closeClient_def Let_def split: client.splits transport_field.splits if_splits)

lemma closeClient_001_clients:
  "closeClient_001 e pool c w = Ret (err, pool', w') \<Longrightarrow> clients pool' = clients pool"
  by (auto simp: closeClient_001_def
      split: option.splits client.splits transport_field.splits if_splits)

lemma idle_push: "clients pool \<noteq> None \<Longrightarrow> idle (push pool c) = idle pool @ [c]"
  by (auto simp: idle_def push_def)

lemma closePooledClient_returns:
  "\<not> unusable h \<Longrightarrow> has_room pool \<Longrightarrow>
   closePooledClient e pool h w = Ret (None, h\<lparr>Client := None\<rparr>, push pool (Client h), w)"
  by (auto simp: closePooledClient_def has_room_def try_send_def push_def closeClient_def
      split: option.splits)

lemma closePooledClient_tears_down:
  "unusable h \<or> \<not> has_room pool \<Longrightarrow>
   closePooledClient e pool h w =
     (case closeClient e pool (Client h) w of
        Panic \<Rightarrow> Panic
      | Ret (err, pool', w') \<Rightarrow> Ret (err, h, pool', w'))"
  by (auto simp: closePooledClient_def has_room_def try_send_def split: option.splits)

lemma closePooledClient_001_returns:
  "\<not> unusable h \<Longrightarrow> has_room pool \<Longrightarrow>
   closePooledClient_001 e pool h w = Ret (None, h, push pool (Client h), w)"
  by (auto simp: closePooledClient_001_def has_room_def try_send_def push_def
      split: option.splits)

lemma closePooledClient_001_tears_down:
  "unusable h \<or> \<not> has_room pool \<Longrightarrow>
   closePooledClient_001 e pool h w =
     (case closeClient_001 e pool (Client h) w of
        Panic \<Rightarrow> Panic
      | Ret (err, pool', w') \<Rightarrow> Ret (err, h, pool', w'))"
  by (auto simp: closePooledClient_001_def has_room_def try_send_def split: option.splits)

lemma has_room_open: "has_room pool \<Longrightarrow> clients pool \<noteq> None"
  by (auto simp: has_room_def split: option.splits)

text \<open>
  C3, as claimed, fails: \<open>Close\<close> can do neither. A factory may hand out a client
  without a \<open>Transport\<close> field; \<open>Get\<close> wraps it, and when the handle is marked unusable
  its \<open>Close\<close> returns \<open>ErrClientMissingTransportField\<close> with the pool and the trace as
  they were: nothing went into the idle buffer and no transport was closed (the socket
  that \<open>Get\<close> opened stays open). Both copies do so.
\<close>

theorem closePooledClient_neither_counterexample:
  "Get env_ok ex_pool_bare [] = Ret (Some ex_handle_bare, None, ex_pool_bare, ex_trace) \<and>
   closePooledClient env_ok ex_pool_bare (MarkUnusable ex_handle_bare) ex_trace =
     Ret (Some ErrClientMissingTransportField, MarkUnusable ex_handle_bare, ex_pool_bare,
          ex_trace) \<and>
   closePooledClient_001 env_ok ex_pool_bare (MarkUnusable ex_handle_bare) ex_trace =
     Ret (Some ErrClientMissingTransportField, MarkUnusable ex_handle_bare, ex_pool_bare,
          ex_trace)"
  by (simp add: Get_def getFromPool_def try_recv_def openClient_def openClient_check_def
      openClient_dial_def Let_def closePooledClient_def closePooledClient_001_def
      closeClient_def closeClient_001_def MarkUnusable_def ex_pool_bare_def factory_bare_def
      ex_handle_bare_def ex_client_bare_def ex_trace_def NewChannelClientPool_def make_chan_def
      env_ok_def)

text \<open>
  C3, amended. Closing a handle whose client holds a transport \<open>t\<close> does exactly one of
  two things, in both copies. If the handle is not marked unusable and the pool is open
  with room in its buffer, the client is appended to the idle buffer and nothing is
  torn down: the call returns nil, and \<open>opened\<close> and the trace are as before. Otherwise
  the transport is closed, once: the trace grows by the one call \<open>t.Close()\<close>, whose
  result is returned, \<open>opened\<close> is counted down, and the idle buffer is as before; so a
  handle marked unusable is torn down and puts nothing into the buffer. A client whose
  \<open>Transport\<close> field is missing or nil is returned to the buffer in the same case; in
  the other case nothing is closed and the call returns
  \<open>ErrClientMissingTransportField\<close> or \<open>ErrClientNilTransportField\<close>.
\<close>

theorem closePooledClient_exactly_one:
  "(Client h = Some (StructPtr i (FieldTransport t)) \<longrightarrow>
      (if \<not> unusable h \<and> has_room pool
       then closePooledClient e pool h w =
              Ret (None, h\<lparr>Client := None\<rparr>, push pool (Client h), w) \<and>
            closePooledClient_001 e pool h w = Ret (None, h, push pool (Client h), w) \<and>
            idle (push pool (Client h)) = idle pool @ [Client h] \<and>
            opened (push pool (Client h)) = opened pool
       else closePooledClient e pool h w =
              Ret (Close_err e w t, h,
                   pool\<lparr>opened := (if maxOpen pool \<noteq> 0 then opened pool - 1
                                    else opened pool)\<rparr>,
                   w @ [EvClose t]) \<and>
            closePooledClient_001 e pool h w =
              Ret (Close_err e w t, h, pool\<lparr>opened := opened pool - 1\<rparr>, w @ [EvClose t]) \<and>
            idle (pool\<lparr>opened := (if maxOpen pool \<noteq> 0 then opened pool - 1
                                   else opened pool)\<rparr>) = idle pool \<and>
            idle (pool\<lparr>opened := opened pool - 1\<rparr>) = idle pool)) \<and>
   (Client h = Some (StructPtr i f) \<and> (f = FieldInvalid \<or> f = FieldNil) \<longrightarrow>
      (if \<not> unusable h \<and> has_room pool
       then closePooledClient e pool h w =
              Ret (None, h\<lparr>Client := None\<rparr>, push pool (Client h), w) \<and>
            closePooledClient_001 e pool h w = Ret (None, h, push pool (Client h), w)
       else closePooledClient e pool h w =
              Ret (Some (if f = FieldInvalid then ErrClientMissingTransportField
                         else ErrClientNilTransportField), h,
                   pool\<lparr>opened := (if maxOpen pool \<noteq> 0 then opened pool - 1
                                    else opened pool)\<rparr>, w) \<and>
            closePooledClient_001 e pool h w =
              Ret (Some (if f = FieldInvalid then ErrClientMissingTransportField
                         else ErrClientNilTransportField), h, pool, w)))"
proof (cases "\<not> unusable h \<and> has_room pool")
  case True
  have o: "opened (push pool (Client h)) = opened pool" by (simp add: push_def)
  from True have ip: "idle (push pool (Client h)) = idle pool @ [Client h]"
    using idle_push [of pool "Client h"] has_room_open [of pool] by simp
  from True have r: "closePooledClient e pool h w =
      Ret (None, h\<lparr>Client := None\<rparr>, push pool (Client h), w)"
    "closePooledClient_001 e pool h w = Ret (None, h, push pool (Client h), w)"
    using closePooledClient_returns [of h pool e w] closePooledClient_001_returns [of h pool e w]
    by simp_all
  show ?thesis
    unfolding if_P [OF True] using o ip r by auto
next
  case False
  then have f: "unusable h \<or> \<not> has_room pool" by simp
  show ?thesis
    unfolding if_not_P [OF False]
    using closePooledClient_tears_down [OF f, of e w]
      closePooledClient_001_tears_down [OF f, of e w]
    by (auto simp: closeClient_def closeClient_001_def Let_def idle_def)
qed

lemma Get_ex_pool:
  "Get env_ok ex_pool [] = Ret (Some ex_handle, None, ex_pool\<lparr>opened := 1\<rparr>, ex_trace)"
  by (simp add: Get_def getFromPool_def try_recv_def openClient_def openClient_check_def
      openClient_dial_def Let_def ex_pool_def NewChannelClientPool_def make_chan_def env_ok_def
      factory_ok_def ex_handle_def ex_client_def ex_trace_def)

lemma has_room_ex_pool: "has_room (ex_pool\<lparr>opened := 1\<rparr>)"
  by (simp add: has_room_def ex_pool_def NewChannelClientPool_def make_chan_def)

theorem closePooledClient_exactly_one_witness:
  "Get env_ok ex_pool [] = Ret (Some ex_handle, None, ex_pool\<lparr>opened := 1\<rparr>, ex_trace) \<and>
   Client ex_handle = Some (StructPtr 1 (FieldTransport 1)) \<and>
   closePooledClient env_ok (ex_pool\<lparr>opened := 1\<rparr>) ex_handle ex_trace =
     Ret (None, ex_handle\<lparr>Client := None\<rparr>, push (ex_pool\<lparr>opened := 1\<rparr>) (Some ex_client),
          ex_trace) \<and>
   closePooledClient_001 env_ok (ex_pool\<lparr>opened := 1\<rparr>) ex_handle ex_trace =
     Ret (None, ex_handle, push (ex_pool\<lparr>opened := 1\<rparr>) (Some ex_client), ex_trace) \<and>
   idle (push (ex_pool\<lparr>opened := 1\<rparr>) (Some ex_client)) = [Some ex_client] \<and>
   closePooledClient env_close_fails (ex_pool\<lparr>opened := 1\<rparr>) (MarkUnusable ex_handle) ex_trace =
     Ret (Some (ErrExternal 1), MarkUnusable ex_handle, ex_pool\<lparr>opened := 0\<rparr>,
          ex_trace @ [EvClose 1]) \<and>
   closePooledClient_001 env_close_fails (ex_pool\<lparr>opened := 1\<rparr>) (MarkUnusable ex_handle)
       ex_trace =
     Ret (Some (ErrExternal 1), MarkUnusable ex_handle, ex_pool\<lparr>opened := 0\<rparr>,
          ex_trace @ [EvClose 1]) \<and>
   idle (ex_pool\<lparr>opened := 0\<rparr>) = [] \<and>
   Client ex_handle_bare = Some (StructPtr 2 FieldInvalid) \<and>
   closePooledClient env_ok (ex_pool\<lparr>opened := 1\<rparr>) (MarkUnusable ex_handle_bare) ex_trace =
     Ret (Some ErrClientMissingTransportField, MarkUnusable ex_handle_bare,
          ex_pool\<lparr>opened := 0\<rparr>, ex_trace) \<and>
   closePooledClient_001 env_ok (ex_pool\<lparr>opened := 1\<rparr>) (MarkUnusable ex_handle_bare) ex_trace =
     Ret (Some ErrClientMissingTransportField, MarkUnusable ex_handle_bare,
          ex_pool\<lparr>opened := 1\<rparr>, ex_trace)"
proof -
  have c: "Client ex_handle = Some (StructPtr 1 (FieldTransport 1))"
    "Client (MarkUnusable ex_handle) = Some (StructPtr 1 (FieldTransport 1))"
    "Client (MarkUnusable ex_handle_bare) = Some (StructPtr 2 FieldInvalid)"
    "Client ex_handle_bare = Some (StructPtr 2 FieldInvalid)"
    by (simp_all add: ex_handle_def ex_handle_bare_def ex_client_def ex_client_bare_def
        MarkUnusable_def)
  have u: "\<not> unusable ex_handle" "unusable (MarkUnusable ex_handle)"
    "unusable (MarkUnusable ex_handle_bare)"
    by (simp_all add: ex_handle_def MarkUnusable_def)
  have m: "maxOpen (ex_pool\<lparr>opened := 1\<rparr>) = 1" "opened (ex_pool\<lparr>opened := 1\<rparr>) = 1"
    "Close_err env_close_fails ex_trace 1 = Some (ErrExternal 1)"
    by (simp_all add: ex_pool_def NewChannelClientPool_def env_close_fails_def)
  have i: "idle (ex_pool\<lparr>opened := 1\<rparr>) = []" "idle (ex_pool\<lparr>opened := 0\<rparr>) = []"
    by (simp_all add: idle_def ex_pool_def NewChannelClientPool_def make_chan_def)
  show ?thesis
    using
      closePooledClient_exactly_one
        [of ex_handle 1 1 "ex_pool\<lparr>opened := 1\<rparr>" env_ok ex_trace]
      closePooledClient_exactly_one
        [of "MarkUnusable ex_handle" 1 1 "ex_pool\<lparr>opened := 1\<rparr>" env_close_fails ex_trace]
      closePooledClient_exactly_one
        [of "MarkUnusable ex_handle_bare" 2 _ "ex_pool\<lparr>opened := 1\<rparr>" env_ok ex_trace
          FieldInvalid]
      Get_ex_pool has_room_ex_pool c u m i
    by (simp add: ex_client_def)
qed

lemma Get_handle_has_client:
  "Get e pool w = Ret (Some h, err, pool', w') \<Longrightarrow>
   (\<And>w s. clientFactory pool w s \<noteq> None) \<Longrightarrow> Client h \<noteq> None"
  by (auto simp: Get_def getFromPool_def openClient_def openClient_dial_def Let_def try_recv_def
      split: option.splits list.splits res.splits prod.splits if_splits)

section \<open>What a release leaves in the handle\<close>

text \<open>
  C9 fails. Only the path that returns the client to the idle buffer clears the
  handle's reference; the path for a handle marked unusable and the fallback path call
  \<open>closeClient\<close> and leave it set. So after the \<open>Close\<close> of a handle marked unusable the
  handle still holds its client, and a second \<open>Close\<close> of that handle tears the same
  client down again: the transport is closed twice and \<open>opened\<close> wraps from 0 to
  4294967295, after which every \<open>Get\<close> that has to open a connection is refused.
\<close>

theorem closePooledClient_keeps_client_counterexample:
  "closePooledClient env_ok (ex_pool\<lparr>opened := 1\<rparr>) (MarkUnusable ex_handle) ex_trace =
     Ret (None, MarkUnusable ex_handle, ex_pool\<lparr>opened := 0\<rparr>, ex_trace @ [EvClose 1]) \<and>
   Client (MarkUnusable ex_handle) = Some ex_client \<and>
   closePooledClient env_ok (ex_pool\<lparr>opened := 0\<rparr>) (MarkUnusable ex_handle) (ex_trace @ [EvClose 1]) =
     Ret (None, MarkUnusable ex_handle, ex_pool\<lparr>opened := 4294967295\<rparr>,
          ex_trace @ [EvClose 1, EvClose 1]) \<and>
   Get env_ok (ex_pool\<lparr>opened := 4294967295\<rparr>) (ex_trace @ [EvClose 1, EvClose 1]) =
     Ret (None, Some ErrPoolMaxOpenReached, ex_pool\<lparr>opened := 4294967295\<rparr>,
          ex_trace @ [EvClose 1, EvClose 1])"
  by (simp add: closePooledClient_def closeClient_def MarkUnusable_def ex_handle_def ex_client_def
      ex_pool_def NewChannelClientPool_def env_ok_def Get_def getFromPool_def try_recv_def
      make_chan_def openClient_def openClient_check_def)

text \<open>
  The fallback path has the same gap, with no handle marked. With one client idle in a
  buffer of capacity one, the \<open>Close\<close> of a second handle closes its transport 5 and
  leaves the client in the handle. Once a \<open>Get\<close> has taken the idle client out, a second
  \<open>Close\<close> of that handle finds room and puts the client, whose transport is closed,
  into the idle buffer, and the next \<open>Get\<close> hands it out.
\<close>

lemma second_Close_returns_closed_client:
  "closePooledClient env_ok (sys_pool ex_sys) ex_handle2 [] =
     Ret (None, ex_handle2, sys_pool ex_sys, [EvClose 5]) \<and>
   Get env_ok (sys_pool ex_sys) [EvClose 5] =
     Ret (Some ex_handle, None, ex_pool_unbounded, [EvClose 5]) \<and>
   closePooledClient env_ok ex_pool_unbounded ex_handle2 [EvClose 5] =
     Ret (None, ex_handle2\<lparr>Client := None\<rparr>,
          ex_pool_unbounded\<lparr>clients := Some \<lparr>buf = [Client ex_handle2], cap = 1\<rparr>\<rparr>,
          [EvClose 5]) \<and>
   Get env_ok (ex_pool_unbounded\<lparr>clients := Some \<lparr>buf = [Client ex_handle2], cap = 1\<rparr>\<rparr>)
       [EvClose 5] =
     Ret (Some ex_handle2, None, ex_pool_unbounded, [EvClose 5])"
  by (simp add: closePooledClient_def closeClient_def try_send_def Get_def getFromPool_def
      try_recv_def ex_sys_def ex_handle_def ex_handle2_def ex_client_def ex_pool_unbounded_def
      NewChannelClientPool_def make_chan_def env_ok_def)

text \<open>
  What each path leaves in the handle. In clientpool.go the client is nil after \<open>Close\<close>
  exactly when it went back to the idle buffer; the \<open>Close\<close> of a handle whose client is
  nil closes nothing. The second copy never writes to the handle.
\<close>

lemma closePooledClient_handle_after:
  "(closePooledClient e pool h w = Ret (err, h', pool', w') \<longrightarrow>
      h' = (if \<not> unusable h \<and> has_room pool then h\<lparr>Client := None\<rparr> else h)) \<and>
   (Client h = None \<longrightarrow>
      (\<exists>pool'. closePooledClient e pool h w = Ret (None, h, pool', w) \<and>
               opened pool' = opened pool)) \<and>
   (closePooledClient_001 e pool h w = Ret (err, h', pool', w') \<longrightarrow> h' = h)"
proof (intro conjI impI)
  assume a: "closePooledClient e pool h w = Ret (err, h', pool', w')"
  show "h' = (if \<not> unusable h \<and> has_room pool then h\<lparr>Client := None\<rparr> else h)"
  proof (cases "\<not> unusable h \<and> has_room pool")
    case True
    then show ?thesis using a closePooledClient_returns [of h pool e w] by simp
  next
    case False
    then have "unusable h \<or> \<not> has_room pool" by simp
    from closePooledClient_tears_down [OF this, of e w] a False show ?thesis
      by (auto split: res.splits)
  qed
next
  assume "Client h = None"
  then show "\<exists>pool'. closePooledClient e pool h w = Ret (None, h, pool', w) \<and>
      opened pool' = opened pool"
    by (cases h) (auto simp: closePooledClient_def closeClient_def try_send_def split: option.splits)
next
  assume "closePooledClient_001 e pool h w = Ret (err, h', pool', w')"
  then show "h' = h"
    by (auto simp: closePooledClient_001_def split: option.splits res.splits if_splits)
qed

section \<open>Teardown\<close>

lemma closeClient_panics:
  "closeClient e pool (Some (NotStructPtr i)) w = Panic \<and>
   closeClient e pool (Some (StructPtr i FieldNotTransport)) w = Panic \<and>
   closeClient_001 e pool (Some (NotStructPtr i)) w = Panic \<and>
   closeClient_001 e pool (Some (StructPtr i FieldNotTransport)) w = Panic"
  by (simp add: closeClient_def closeClient_001_def Let_def)

text \<open>
  C8, as claimed, fails for the \<open>closeClient\<close> of the second copy: with a ceiling set,
  the teardown of a client without a \<open>Transport\<close> field returns the error and leaves
  \<open>opened\<close> at 1; and without a ceiling, the teardown of a client with a transport
  still takes \<open>opened\<close> from 1 to 0.
\<close>

theorem closeClient_001_opened_counterexample:
  "maxOpen (ex_pool\<lparr>opened := 1\<rparr>) = 1 \<and>
   closeClient_001 env_ok (ex_pool\<lparr>opened := 1\<rparr>) (Some ex_client_bare) [] =
     Ret (Some ErrClientMissingTransportField, ex_pool\<lparr>opened := 1\<rparr>, []) \<and>
   maxOpen (ex_pool_unbounded\<lparr>opened := 1\<rparr>) = 0 \<and>
   closeClient_001 env_ok (ex_pool_unbounded\<lparr>opened := 1\<rparr>) (Some ex_client) [] =
     Ret (None, ex_pool_unbounded\<lparr>opened := 0\<rparr>, [EvClose 1])"
  by (simp add: closeClient_001_def ex_client_bare_def ex_client_def ex_pool_def ex_pool_unbounded_def
      NewChannelClientPool_def env_ok_def)

text \<open>
  C8, amended. The teardown of a nil client returns nil and changes nothing, in both
  copies. For a client that is a pointer to a struct, both copies return
  \<open>ErrClientMissingTransportField\<close> when the struct has no \<open>Transport\<close> field,
  \<open>ErrClientNilTransportField\<close> when the field is nil, and otherwise, the field holding
  a transport, close that transport and return what its \<open>Close\<close> returns. They differ in
  the count: clientpool.go takes one off \<open>opened\<close> (wrapping) in all three cases, and
  only when \<open>maxOpen \<noteq> 0\<close>; the second copy takes one off only when it closes the
  transport, whatever \<open>maxOpen\<close> is.
\<close>

theorem closeClient_teardown:
  "closeClient e pool None w = Ret (None, pool, w) \<and>
   closeClient e pool (Some (StructPtr i FieldInvalid)) w =
     Ret (Some ErrClientMissingTransportField,
          pool\<lparr>opened := (if maxOpen pool \<noteq> 0 then opened pool - 1 else opened pool)\<rparr>, w) \<and>
   closeClient e pool (Some (StructPtr i FieldNil)) w =
     Ret (Some ErrClientNilTransportField,
          pool\<lparr>opened := (if maxOpen pool \<noteq> 0 then opened pool - 1 else opened pool)\<rparr>, w) \<and>
   closeClient e pool (Some (StructPtr i (FieldTransport t))) w =
     Ret (Close_err e w t,
          pool\<lparr>opened := (if maxOpen pool \<noteq> 0 then opened pool - 1 else opened pool)\<rparr>,
          w @ [EvClose t]) \<and>
   closeClient_001 e pool None w = Ret (None, pool, w) \<and>
   closeClient_001 e pool (Some (StructPtr i FieldInvalid)) w =
     Ret (Some ErrClientMissingTransportField, pool, w) \<and>
   closeClient_001 e pool (Some (StructPtr i FieldNil)) w =
     Ret (Some ErrClientNilTransportField, pool, w) \<and>
   closeClient_001 e pool (Some (StructPtr i (FieldTransport t))) w =
     Ret (Close_err e w t, pool\<lparr>opened := opened pool - 1\<rparr>, w @ [EvClose t])"
  by (simp add: closeClient_def closeClient_001_def Let_def)

section \<open>Opening a connection\<close>








section \<open>Shutdown\<close>

text \<open>
  The \<open>Close\<close> of clientpool.go returns for every pool, with the first error of a
  teardown of every idle client in turn.
\<close>

lemma Close_returns: "\<exists>r. Close e pool w = Some r"
  by (simp add: Close_close_each)

lemma Close_best_effort:
  "close_each e (idle pool) (pool\<lparr>clients := None\<rparr>) w = Ret (errs, pool', w') \<Longrightarrow>
   Close e pool w = Some (Ret (first_error errs, pool', w')) \<and>
   clients pool' = None \<and>
   length errs = length (idle pool) \<and>
   w' = w @ map EvClose (transports (idle pool)) \<and>
   (first_error errs = None \<longleftrightarrow> list_all (\<lambda>x. x = None) errs)"
  using close_each_facts [of e "idle pool" "pool\<lparr>clients := None\<rparr>" w errs pool' w']
  by (simp add: Close_close_each first_error_None)

lemma closeClient_Panic: "closeClient e pool c w = Panic \<longleftrightarrow> malformed c"
  by (cases c rule: malformed.cases) (simp_all add: closeClient_def Let_def)

lemma closeClient_001_Panic: "closeClient_001 e pool c w = Panic \<longleftrightarrow> malformed c"
  by (cases c rule: malformed.cases) (simp_all add: closeClient_001_def)

lemma Close_Panic:
  "Close e pool w = Some Panic \<longleftrightarrow> (\<exists>c \<in> set (idle pool). malformed c)"
proof -
  have "close_each e cs p w = Panic \<longleftrightarrow> (\<exists>c \<in> set cs. malformed c)" for cs p w
  proof (induction cs arbitrary: p w)
    case Nil
    show ?case by simp
  next
    case (Cons c cs)
    show ?case
    proof (cases "closeClient e p c w")
      case Panic
      then show ?thesis using closeClient_Panic [of e p c w] by simp
    next
      case (Ret r)
      obtain err p1 w1 where r: "r = (err, p1, w1)" by (cases r) auto
      from Ret have m: "\<not> malformed c" using closeClient_Panic [of e p c w] by simp
      from Ret r have "close_each e (c # cs) p w = Panic \<longleftrightarrow> close_each e cs p1 w1 = Panic"
        by (simp split: res.splits prod.splits)
      with m Cons.IH [of p1 w1] show ?thesis by simp
    qed
  qed
  from this [of "idle pool" "pool\<lparr>clients := None\<rparr>" w]
  show ?thesis by (auto simp: Close_close_each split: res.splits)
qed

text \<open>
  The drain loop of the second copy has no way out but a panic: whenever it yields a
  result, that result is the panic of a teardown of one of the idle clients.
\<close>

lemma drain_001_Some:
  assumes "drain_001 e cs err pool w = Some y"
  shows "y = Panic \<and> (\<exists>c \<in> set (case cs of None \<Rightarrow> [] | Some ch \<Rightarrow> buf ch). malformed c)"
proof (rule drain_001.raw_induct
    [where P = "\<lambda>e cs err pool w y.
       y = Panic \<and> (\<exists>c \<in> set (case cs of None \<Rightarrow> [] | Some ch \<Rightarrow> buf ch). malformed c)",
     OF _ assms])
  fix f :: "env \<Rightarrow> chan option \<Rightarrow> error option \<Rightarrow> ChannelClientPool \<Rightarrow> world
      \<Rightarrow> (error option \<times> ChannelClientPool \<times> world) res option"
    and e :: env and cs :: "chan option" and err :: "error option"
    and pool :: ChannelClientPool and w :: world
    and y :: "(error option \<times> ChannelClientPool \<times> world) res"
  assume IH: "\<And>e cs err pool w y. f e cs err pool w = Some y \<Longrightarrow>
      y = Panic \<and> (\<exists>c \<in> set (case cs of None \<Rightarrow> [] | Some ch \<Rightarrow> buf ch). malformed c)"
  assume body: "(case select_recv cs of
        None \<Rightarrow> f e cs err pool w
      | Some (rawCli, ch') \<Rightarrow>
          (case closeClient_001 e pool rawCli w of
             Panic \<Rightarrow> Some Panic
           | Ret (curErr, pool', w') \<Rightarrow>
               f e (Some ch') (if err = None then curErr else err) pool' w')) = Some y"
  show "y = Panic \<and> (\<exists>c \<in> set (case cs of None \<Rightarrow> [] | Some ch \<Rightarrow> buf ch). malformed c)"
  proof (cases "select_recv cs")
    case None
    with body IH [of e cs err pool w y] show ?thesis by simp
  next
    case (Some a)
    obtain rawCli ch' where a: "a = (rawCli, ch')" by (cases a) auto
    from Some a obtain ch where ch: "cs = Some ch" "buf ch = rawCli # buf ch'"
      by (auto simp: select_recv_def try_recv_def split: option.splits list.splits)
    show ?thesis
    proof (cases "closeClient_001 e pool rawCli w")
      case Panic
      then have "malformed rawCli" by (simp add: closeClient_001_Panic)
      with body Some a Panic ch show ?thesis by auto
    next
      case (Ret r)
      obtain curErr pool' w' where r: "r = (curErr, pool', w')" by (cases r) auto
      from body Some a Ret r
      have "f e (Some ch') (if err = None then curErr else err) pool' w' = Some y"
        by simp
      from IH [OF this] ch show ?thesis by auto
    qed
  qed
qed

lemma Close_001_None:
  "\<forall>c \<in> set (idle pool). \<not> malformed c \<Longrightarrow> Close_001 e pool w = None"
proof (cases "Close_001 e pool w")
  case None
  then show ?thesis .
next
  case (Some y)
  assume m: "\<forall>c \<in> set (idle pool). \<not> malformed c"
  from Some drain_001_Some [of e "clients pool" None "pool\<lparr>clients := None\<rparr>" w y] m
  show ?thesis by (auto simp: Close_001_def idle_def)
qed

text \<open>
  C5 fails for the second copy. On a pool with two idle clients whose transports both
  fail to close, the \<open>Close\<close> of clientpool.go returns the first of the two errors, the
  pool closed and both transports closed in turn; the \<open>Close\<close> of the second copy
  returns nothing.
\<close>

theorem Close_001_returns_no_error:
  "Close env_close_fails ex_pool_two [] =
     Some (Ret (Some (ErrExternal 1), ex_pool_two\<lparr>clients := None\<rparr>, [EvClose 1, EvClose 2])) \<and>
   Close_001 env_close_fails ex_pool_two [] = None"
proof
  show "Close env_close_fails ex_pool_two [] =
     Some (Ret (Some (ErrExternal 1), ex_pool_two\<lparr>clients := None\<rparr>, [EvClose 1, EvClose 2]))"
    by (simp add: Close_close_each idle_def ex_pool_two_def NewChannelClientPool_def
        closeClient_def env_close_fails_def first_error_def)
  show "Close_001 env_close_fails ex_pool_two [] = None"
    by (rule Close_001_None) (simp add: idle_def ex_pool_two_def)
qed

text \<open>
  C6 fails for the second copy: its \<open>Close\<close> never returns, whatever the pool holds. It
  either waits for ever or panics in a teardown.
\<close>

theorem Close_001_never_returns:
  "Close_001 e pool w \<noteq> Some (Ret r)"
  using drain_001_Some [of e "clients pool" None "pool\<lparr>clients := None\<rparr>" w "Ret r"]
  by (auto simp: Close_001_def)

text \<open>
  A release does not wait either, in both copies: on a closed pool or a full buffer it
  is the teardown.
\<close>

lemma release_on_full_buffer:
  "\<not> has_room pool \<Longrightarrow>
   closePooledClient e pool h w =
     (case closeClient e pool (Client h) w of
        Panic \<Rightarrow> Panic
      | Ret (err, pool', w') \<Rightarrow> Ret (err, h, pool', w')) \<and>
   closePooledClient_001 e pool h w =
     (case closeClient_001 e pool (Client h) w of
        Panic \<Rightarrow> Panic
      | Ret (err, pool', w') \<Rightarrow> Ret (err, h, pool', w'))"
  using closePooledClient_tears_down [of h pool e w]
    closePooledClient_001_tears_down [of h pool e w]
  by simp

section \<open>The ceiling under concurrent acquires\<close>

text \<open>
  A goroutine that takes its two steps with no other step in between runs
  \<open>openClient\<close>.
\<close>

lemma gstep_twice_openClient:
  "c_goroutines s = [AtCheck] \<Longrightarrow>
   c_goroutines (schedule e [0, 0] s) =
     [case openClient e (c_pool s) (c_world s) of
        Panic \<Rightarrow> Panicked
      | Ret (cli, err, pool', w') \<Rightarrow> Returned cli err]"
  by (auto simp: schedule_def gstep_def openClient_def split: res.splits)

lemma sequential_acquires_respect_ceiling:
  "schedule env_ok [0, 0, 1, 1]
     \<lparr>c_pool = ex_pool, c_world = [], c_goroutines = [AtCheck, AtCheck]\<rparr> =
   \<lparr>c_pool = ex_pool\<lparr>opened := 1\<rparr>, c_world = ex_trace,
    c_goroutines = [Returned (Some ex_client) None,
                    Returned None (Some ErrPoolMaxOpenReached)]\<rparr>"
  by (simp add: schedule_def gstep_def openClient_check_def openClient_dial_def Let_def
      ex_pool_def NewChannelClientPool_def env_ok_def factory_ok_def ex_client_def ex_trace_def)

text \<open>
  C1 fails. With \<open>maxOpen = 1\<close> and two goroutines in \<open>openClient\<close>, the schedule in
  which both pass the ceiling check before either adds to \<open>opened\<close> gives both a
  connection and leaves \<open>opened = 2\<close>. The second copy has the same gap between
  \<open>maxOpenReached\<close> and the increment in \<open>openClient\<close>.
\<close>

theorem openClient_race_overshoot:
  "maxOpen ex_pool = 1 \<and>
   schedule env_ok [0, 1, 0, 1]
     \<lparr>c_pool = ex_pool, c_world = [], c_goroutines = [AtCheck, AtCheck]\<rparr> =
   \<lparr>c_pool = ex_pool\<lparr>opened := 2\<rparr>,
    c_world = ex_trace @
      [EvRand, EvNewTSocket ''a'',
       EvOpen \<lparr>sock_id = 5, addr = ''a'', timeout = 5\<rparr>,
       EvFactory \<lparr>sock_id = 5, addr = ''a'', timeout = 7\<rparr>],
    c_goroutines = [Returned (Some ex_client) None,
                    Returned (Some (StructPtr 5 (FieldTransport 5))) None]\<rparr> \<and>
   \<not> maxOpenReached ex_pool \<and>
   openClient_001 env_ok ex_pool [] = Ret (Some ex_client, None, ex_pool\<lparr>opened := 1\<rparr>, ex_trace) \<and>
   openClient_001 env_ok (ex_pool\<lparr>opened := 1\<rparr>) ex_trace =
     Ret (Some (StructPtr 5 (FieldTransport 5)), None, ex_pool\<lparr>opened := 2\<rparr>,
          ex_trace @
          [EvRand, EvNewTSocket ''a'',
           EvOpen \<lparr>sock_id = 5, addr = ''a'', timeout = 5\<rparr>,
           EvFactory \<lparr>sock_id = 5, addr = ''a'', timeout = 7\<rparr>])"
  by (simp add: schedule_def gstep_def openClient_check_def openClient_dial_def Let_def
      maxOpenReached_def openClient_001_def
      ex_pool_def NewChannelClientPool_def env_ok_def factory_ok_def ex_client_def ex_trace_def)

section \<open>The idle buffer never outgrows maxIdle\<close>





lemma closeClient_001_chan_ok:
  "closeClient_001 e pool c w = Ret (err, pool', w') \<Longrightarrow> chan_ok k pool' = chan_ok k pool"
  by (simp add: chan_ok_def closeClient_001_clients)


lemma openClient_001_clients:
  "openClient_001 e pool w = Ret (c, err, pool', w') \<Longrightarrow> clients pool' = clients pool"
  by (auto simp: openClient_001_def Let_def split: if_splits option.splits)



lemma Get_001_chan_ok:
  assumes "chan_ok k pool" and "Get_001 e pool w = Ret (h, err, pool', w')"
  shows "chan_ok k pool'"
proof (cases "clients pool")
  case None
  with assms show ?thesis by (simp add: Get_001_def getClients_def)
next
  case (Some ch)
  define r where "r = (case try_recv ch of
      Some (c, ch') \<Rightarrow> (c, pool\<lparr>clients := Some ch'\<rparr>) | None \<Rightarrow> (None, pool))"
  obtain c pool1 where r: "r = (c, pool1)" by (cases r) auto
  have k1: "chan_ok k pool1"
    using assms(1) Some r
    by (auto simp: r_def chan_ok_def try_recv_def split: option.splits list.splits)
  from assms(2) Some r have
    "pool' = pool1 \<or> (\<exists>c2 err2. openClient_001 e pool1 w = Ret (c2, err2, pool', w'))"
    by (auto simp: Get_001_def getClients_def r_def [symmetric] split: res.splits if_splits)
  then show ?thesis
    using k1 openClient_001_clients [of e pool1 w _ _ pool' w'] by (auto simp: chan_ok_def)
qed

lemma try_send_chan_ok:
  "chan_ok k pool \<Longrightarrow> clients pool = Some ch \<Longrightarrow> try_send ch c = Some ch' \<Longrightarrow>
   chan_ok k (pool\<lparr>clients := Some ch'\<rparr>)"
  by (auto simp: chan_ok_def try_send_def split: if_splits)


lemma closePooledClient_001_chan_ok:
  assumes "chan_ok k pool" and "closePooledClient_001 e pool h w = Ret (err, h', pool', w')"
  shows "chan_ok k pool'"
proof (cases "\<not> unusable h \<and> has_room pool")
  case True
  with assms(2) closePooledClient_001_returns [of h pool e w]
  have p: "pool' = push pool (Client h)" by auto
  from True assms(1) show ?thesis
    by (auto simp: p push_def chan_ok_def has_room_def split: option.splits)
next
  case False
  then have "unusable h \<or> \<not> has_room pool" by simp
  from closePooledClient_001_tears_down [OF this, of e w] assms(2)
  obtain err1 where "closeClient_001 e pool (Client h) w = Ret (err1, pool', w')"
    by (auto split: res.splits)
  from closeClient_001_chan_ok [OF this] assms(1) show ?thesis by simp
qed







section \<open>The second copy refuses an acquire in the same two cases\<close>

lemma Get_001_fails_closed_or_ceiling:
  "(clients pool = None \<longrightarrow> Get_001 e pool w = Ret (None, Some ErrPoolClosed, pool, w)) \<and>
   (clients pool = Some ch \<and> buf ch = [] \<and> maxOpen pool \<noteq> 0 \<and> maxOpen pool \<le> opened pool \<longrightarrow>
      Get_001 e pool w = Ret (None, Some ErrPoolMaxOpenReached, pool, w))"
  by (simp add: Get_001_def getClients_def try_recv_def maxOpenReached_def)

end
